theory Spec2Isabelle
  imports Complex_Main "HOL-Library.Word"
begin

section \<open>Data model of the Twinkly client\<close>

text \<open>
  The client (class \<open>Twinkly\<close> of \<open>ttls.py\<close>) talks to one device over HTTP and UDP.
  The model is a shallow embedding: each method is a function that takes the client
  object and the outside world and returns its result, the client object and the world
  as the call leaves them. An exception is a value \<open>Inl e\<close>; the client and the world
  are still returned, because Python keeps every assignment made before the raise.

  Python values that come out of the device's JSON bodies and out of the command line
  are \<open>None\<close>, booleans, integers, strings and dictionaries (floats and lists are
  outside the model). A dictionary is the list of its items.
\<close>

datatype json = JNull | JBool bool | JInt int | JStr string | JObj "(string \<times> json) list"

datatype py_error =
    HTTPError | ConnectionError | JSONDecodeError | KeyError | TypeError | ValueError
  | InvalidHeader | BinasciiError | RecursionError | OSError | ZeroDivisionError
  | OverflowError | AttributeError | UnboundLocalError | SystemExit | UnknownCommand

type_synonym byte = "8 word"

datatype verb = GET | POST

datatype body = NoBody | JsonBody json | RawBody "byte list"

text \<open>
  One entry of the HTTP trace: what was sent and when. \<open>via_helper\<close> tells whether the
  request went through \<open>_get\<close>/\<open>_post\<close> (\<open>login\<close> uses the session directly), \<open>auth\<close> is
  the session's \<open>X-Auth-Token\<close> header at that moment, and \<open>expires_then\<close> is the value
  of \<open>self.expires\<close> at that moment.
\<close>

record http_entry =
  verb_of :: verb
  url :: string
  auth :: "json option"
  payload :: body
  via_helper :: bool
  sent_at :: int
  expires_then :: "int option"

text \<open>The device answers with a status and a body (\<open>None\<close>: not JSON), or not at all.\<close>

datatype reply = Unreachable | Reply nat "json option"

type_synonym response = "nat \<times> json option"

record datagram =
  dest_host :: string
  dest_port :: nat
  bytes_of :: "byte list"

text \<open>
  The world outside the client. \<open>clock\<close> is what \<open>time.time()\<close> returns, in seconds;
  it advances only while a request is under way. \<open>device\<close> decides the reply to the
  latest request of a trace and the seconds the round trip takes. \<open>urandom_b64\<close> is the
  text \<open>base64.b64encode(os.urandom(32)).decode()\<close> evaluates to for the k-th request.
  \<open>udp_up\<close> says whether \<open>socket.sendto\<close> succeeds. \<open>files\<close> are the files \<open>open\<close> can
  read and \<open>stdout\<close> is what \<open>print\<close> has written. \<open>header_clean\<close> tells which strings
  the HTTP library accepts as the value of a header (it refuses, among others, a string
  with a line break). \<open>float_quot\<close> is the interpreter's value of
  \<open>int(a / 3 / b)\<close> in floating point, consulted only for operands so large that the
  rounding of floats can show in the result.
\<close>

datatype printed = Pretty json | Compact json

record world =
  clock :: int
  device :: "http_entry list \<Rightarrow> reply \<times> nat"
  urandom_b64 :: "nat \<Rightarrow> string"
  http_log :: "http_entry list"
  udp_up :: bool
  udp_log :: "datagram list"
  files :: "string \<Rightarrow> byte list option"
  stdout :: "printed list"
  header_clean :: "string \<Rightarrow> bool"
  float_quot :: "nat \<Rightarrow> int \<Rightarrow> py_error + int"

text \<open>
  The fields of a \<open>Twinkly\<close> object. \<open>u_token\<close> and \<open>u_length\<close> are \<open>self._token\<close> and
  \<open>self._length\<close>; \<open>x_auth_token\<close> is \<open>self.session.headers['X-Auth-Token']\<close>.
\<close>

record twinkly =
  host :: string
  rt_port :: nat
  expires :: "int option"
  u_token :: json
  u_length :: json
  x_auth_token :: "json option"

type_synonym 'a result = "(py_error + 'a) \<times> twinkly \<times> world"

section \<open>HTTP session\<close>

definition base :: "twinkly \<Rightarrow> string" where
  "base t = ''http://'' @ host t @ ''/xled/v1''"

text \<open>
  The header \<open>X-Auth-Token\<close> as the HTTP library prepares it from the session's headers,
  before anything is sent: an entry that is \<open>None\<close> is left out, a string is sent when the
  library accepts it, and any other value raises \<open>InvalidHeader\<close>.
\<close>

fun wire_header :: "(string \<Rightarrow> bool) \<Rightarrow> json option \<Rightarrow> py_error + json option" where
  "wire_header ok None = Inr None"
| "wire_header ok (Some JNull) = Inr None"
| "wire_header ok (Some (JStr s)) = (if ok s then Inr (Some (JStr s)) else Inl InvalidHeader)"
| "wire_header ok (Some _) = Inl InvalidHeader"

text \<open>
  \<open>self.session.post\<close> and \<open>self.session.get\<close>: the request is prepared, which can fail
  on the header; then it is recorded and answered.
\<close>

definition session_request ::
  "bool \<Rightarrow> verb \<Rightarrow> string \<Rightarrow> body \<Rightarrow> twinkly \<Rightarrow> world \<Rightarrow> response result" where
  "session_request h v endpoint b t w =
     (case wire_header (header_clean w) (x_auth_token t) of
        Inl x \<Rightarrow> (Inl x, t, w)
      | Inr a \<Rightarrow>
         (let e = \<lparr>verb_of = v, url = base t @ ''/'' @ endpoint, auth = a,
                   payload = b, via_helper = h, sent_at = clock w, expires_then = expires t\<rparr>;
              lg = http_log w @ [e];
              w' = w\<lparr>http_log := lg, clock := clock w + int (snd (device w lg))\<rparr>
          in case fst (device w lg) of
               Unreachable \<Rightarrow> (Inl ConnectionError, t, w')
             | Reply s j \<Rightarrow> (Inr (s, j), t, w')))"

definition raise_for_status :: "response \<Rightarrow> py_error + unit" where
  "raise_for_status r = (if 400 \<le> fst r \<and> fst r < 600 then Inl HTTPError else Inr ())"

definition response_json :: "response \<Rightarrow> py_error + json" where
  "response_json r = (case snd r of None \<Rightarrow> Inl JSONDecodeError | Some j \<Rightarrow> Inr j)"

text \<open>\<open>r[key]\<close> on a decoded JSON value.\<close>

fun subscript :: "json \<Rightarrow> string \<Rightarrow> py_error + json" where
  "subscript (JObj kvs) k = (case map_of kvs k of None \<Rightarrow> Inl KeyError | Some v \<Rightarrow> Inr v)"
| "subscript _ k = Inl TypeError"

text \<open>A value used as a number: \<open>bool\<close> is a subclass of \<open>int\<close> in Python.\<close>

fun py_int_of :: "json \<Rightarrow> int option" where
  "py_int_of (JInt n) = Some n"
| "py_int_of (JBool b) = Some (if b then 1 else 0)"
| "py_int_of _ = None"

text \<open>\<open>time.time() + v\<close>.\<close>

definition add_seconds :: "int \<Rightarrow> json \<Rightarrow> py_error + int" where
  "add_seconds now v = (case py_int_of v of None \<Rightarrow> Inl TypeError | Some n \<Rightarrow> Inr (now + n))"

section \<open>Authentication\<close>

text \<open>
  \<open>login\<close>: the token and the header are assigned before the lifetime is read, so a
  body without \<open>authentication_token_expires_in\<close> leaves them set and \<open>expires\<close> as it was.
\<close>

definition login :: "twinkly \<Rightarrow> world \<Rightarrow> unit result" where
  "login t w =
     (let challenge = urandom_b64 w (length (http_log w));
          pl = JsonBody (JObj [(''challenge'', JStr challenge)])
      in case session_request False POST ''login'' pl t w of
           (Inl e, t1, w1) \<Rightarrow> (Inl e, t1, w1)
         | (Inr resp, t1, w1) \<Rightarrow>
            (case raise_for_status resp of
               Inl e \<Rightarrow> (Inl e, t1, w1)
             | Inr _ \<Rightarrow>
                (case response_json resp of
                   Inl e \<Rightarrow> (Inl e, t1, w1)
                 | Inr r \<Rightarrow>
                    (case subscript r ''authentication_token'' of
                       Inl e \<Rightarrow> (Inl e, t1, w1)
                     | Inr tok \<Rightarrow>
                        (let t2 = t1\<lparr>u_token := tok, x_auth_token := Some tok\<rparr>
                         in case subscript r ''authentication_token_expires_in'' of
                              Inl e \<Rightarrow> (Inl e, t2, w1)
                            | Inr ttl \<Rightarrow>
                               (case add_seconds (clock w1) ttl of
                                  Inl e \<Rightarrow> (Inl e, t2, w1)
                                | Inr x \<Rightarrow> (Inr (), t2\<lparr>expires := Some x\<rparr>, w1)))))))"

text \<open>The test of \<open>ensure_token\<close>: \<open>self.expires is None or self.expires <= time.time()\<close>.\<close>

definition token_expired :: "twinkly \<Rightarrow> world \<Rightarrow> bool" where
  "token_expired t w = (case expires t of None \<Rightarrow> True | Some x \<Rightarrow> x \<le> clock w)"

text \<open>
  \<open>ensure_token\<close> calls \<open>verify_login\<close>, which posts through \<open>_post\<close>, which calls
  \<open>ensure_token\<close> again. The first argument is the depth of nesting the interpreter
  still allows; when it is used up, Python raises \<open>RecursionError\<close>.
\<close>

fun ensure_token :: "nat \<Rightarrow> twinkly \<Rightarrow> world \<Rightarrow> unit result"
  and verify_login :: "nat \<Rightarrow> twinkly \<Rightarrow> world \<Rightarrow> unit result"
  and u_post :: "nat \<Rightarrow> string \<Rightarrow> body \<Rightarrow> twinkly \<Rightarrow> world \<Rightarrow> response result"
where
  "ensure_token 0 t w = (Inl RecursionError, t, w)"
| "ensure_token (Suc n) t w =
     (if token_expired t w then
        (case login t w of
           (Inl e, t1, w1) \<Rightarrow> (Inl e, t1, w1)
         | (Inr _, t1, w1) \<Rightarrow> verify_login n t1 w1)
      else (Inr (), t, w))"
| "verify_login n t w =
     (case u_post n ''verify'' (JsonBody (JObj [])) t w of
        (Inl e, t1, w1) \<Rightarrow> (Inl e, t1, w1)
      | (Inr resp, t1, w1) \<Rightarrow>
         (case raise_for_status resp of
            Inl e \<Rightarrow> (Inl e, t1, w1)
          | Inr _ \<Rightarrow> (Inr (), t1, w1)))"
| "u_post n endpoint b t w =
     (case ensure_token n t w of
        (Inl e, t1, w1) \<Rightarrow> (Inl e, t1, w1)
      | (Inr _, t1, w1) \<Rightarrow> session_request True POST endpoint b t1 w1)"

definition u_get :: "nat \<Rightarrow> string \<Rightarrow> twinkly \<Rightarrow> world \<Rightarrow> response result" where
  "u_get n endpoint t w =
     (case ensure_token n t w of
        (Inl e, t1, w1) \<Rightarrow> (Inl e, t1, w1)
      | (Inr _, t1, w1) \<Rightarrow> session_request True GET endpoint NoBody t1 w1)"

text \<open>\<open>__init__\<close>: the fields are reset, then \<open>ensure_token\<close> runs when \<open>login\<close> is set.\<close>

definition new_twinkly :: "string \<Rightarrow> twinkly" where
  "new_twinkly h =
     \<lparr>host = h, rt_port = 7777, expires = None, u_token = JNull, u_length = JNull,
      x_auth_token = None\<rparr>"

definition twinkly_init :: "nat \<Rightarrow> string \<Rightarrow> bool \<Rightarrow> world \<Rightarrow> unit result" where
  "twinkly_init n h lg w =
     (if lg then ensure_token n (new_twinkly h) w else (Inr (), new_twinkly h, w))"

definition logout :: "nat \<Rightarrow> twinkly \<Rightarrow> world \<Rightarrow> unit result" where
  "logout n t w =
     (case u_post n ''logout'' (JsonBody (JObj [])) t w of
        (Inl e, t1, w1) \<Rightarrow> (Inl e, t1, w1)
      | (Inr resp, t1, w1) \<Rightarrow>
         (case raise_for_status resp of
            Inl e \<Rightarrow> (Inl e, t1, w1)
          | Inr _ \<Rightarrow> (Inr (), t1\<lparr>u_token := JNull\<rparr>, w1)))"

text \<open>The property \<open>token\<close>.\<close>

definition token :: "nat \<Rightarrow> twinkly \<Rightarrow> world \<Rightarrow> json result" where
  "token n t w =
     (case ensure_token n t w of
        (Inl e, t1, w1) \<Rightarrow> (Inl e, t1, w1)
      | (Inr _, t1, w1) \<Rightarrow> (Inr (u_token t1), t1, w1))"

section \<open>Device operations\<close>

text \<open>
  Every operation ends with \<open>response.raise_for_status()\<close> and
  \<open>return response.json()\<close>.
\<close>

definition checked_json :: "response result \<Rightarrow> json result" where
  "checked_json m =
     (case m of
        (Inl e, t1, w1) \<Rightarrow> (Inl e, t1, w1)
      | (Inr resp, t1, w1) \<Rightarrow>
         (case raise_for_status resp of
            Inl e \<Rightarrow> (Inl e, t1, w1)
          | Inr _ \<Rightarrow>
             (case response_json resp of
                Inl e \<Rightarrow> (Inl e, t1, w1)
              | Inr j \<Rightarrow> (Inr j, t1, w1))))"

definition get_name :: "nat \<Rightarrow> twinkly \<Rightarrow> world \<Rightarrow> json result" where
  "get_name n t w = checked_json (u_get n ''device_name'' t w)"

definition set_name :: "nat \<Rightarrow> json \<Rightarrow> twinkly \<Rightarrow> world \<Rightarrow> json result" where
  "set_name n data t w = checked_json (u_post n ''device_name'' (JsonBody data) t w)"

definition reset :: "nat \<Rightarrow> twinkly \<Rightarrow> world \<Rightarrow> json result" where
  "reset n t w = checked_json (u_get n ''reset'' t w)"

definition get_network_status :: "nat \<Rightarrow> twinkly \<Rightarrow> world \<Rightarrow> json result" where
  "get_network_status n t w = checked_json (u_get n ''network/status'' t w)"

definition get_firmware_version :: "nat \<Rightarrow> twinkly \<Rightarrow> world \<Rightarrow> json result" where
  "get_firmware_version n t w = checked_json (u_get n ''fw/version'' t w)"

definition get_details :: "nat \<Rightarrow> twinkly \<Rightarrow> world \<Rightarrow> json result" where
  "get_details n t w = checked_json (u_get n ''gestalt'' t w)"

definition get_mode :: "nat \<Rightarrow> twinkly \<Rightarrow> world \<Rightarrow> json result" where
  "get_mode n t w = checked_json (u_get n ''led/mode'' t w)"

definition set_mode :: "nat \<Rightarrow> json \<Rightarrow> twinkly \<Rightarrow> world \<Rightarrow> json result" where
  "set_mode n data t w = checked_json (u_post n ''led/mode'' (JsonBody data) t w)"

definition get_mqtt :: "nat \<Rightarrow> twinkly \<Rightarrow> world \<Rightarrow> json result" where
  "get_mqtt n t w = checked_json (u_get n ''mqtt/config'' t w)"

definition set_mqtt :: "nat \<Rightarrow> json \<Rightarrow> twinkly \<Rightarrow> world \<Rightarrow> json result" where
  "set_mqtt n data t w = checked_json (u_post n ''mqtt/config'' (JsonBody data) t w)"

definition get_movie_config :: "nat \<Rightarrow> twinkly \<Rightarrow> world \<Rightarrow> json result" where
  "get_movie_config n t w = checked_json (u_get n ''led/movie/config'' t w)"

definition set_movie_config :: "nat \<Rightarrow> json \<Rightarrow> twinkly \<Rightarrow> world \<Rightarrow> json result" where
  "set_movie_config n data t w =
     checked_json (u_post n ''led/movie/config'' (JsonBody data) t w)"

definition upload_movie :: "nat \<Rightarrow> byte list \<Rightarrow> twinkly \<Rightarrow> world \<Rightarrow> json result" where
  "upload_movie n movie t w = checked_json (u_post n ''led/movie/full'' (RawBody movie) t w)"

text \<open>The setter of the property \<open>mode\<close>: \<open>self.set_mode({'mode': m})\<close>, result dropped.\<close>

definition mode_setter :: "nat \<Rightarrow> string \<Rightarrow> twinkly \<Rightarrow> world \<Rightarrow> unit result" where
  "mode_setter n m t w =
     (case set_mode n (JObj [(''mode'', JStr m)]) t w of
        (Inl e, t1, w1) \<Rightarrow> (Inl e, t1, w1)
      | (Inr _, t1, w1) \<Rightarrow> (Inr (), t1, w1))"

text \<open>
  The property \<open>length\<close>: the LED count is fetched from the device details while
  \<open>self._length\<close> is \<open>None\<close>, and kept.
\<close>

definition length_led :: "nat \<Rightarrow> twinkly \<Rightarrow> world \<Rightarrow> json result" where
  "length_led n t w =
     (if u_length t = JNull then
        (case get_details n t w of
           (Inl e, t1, w1) \<Rightarrow> (Inl e, t1, w1)
         | (Inr d, t1, w1) \<Rightarrow>
            (case subscript d ''number_of_led'' of
               Inl e \<Rightarrow> (Inl e, t1, w1)
             | Inr v \<Rightarrow> (Inr v, t1\<lparr>u_length := v\<rparr>, w1)))
      else (Inr (u_length t), t, w))"

section \<open>Realtime frames\<close>

type_synonym frame = "(int \<times> int \<times> int) list"

text \<open>\<open>bytes(xs)\<close> for a list of integers: every item must be in \<open>range(256)\<close>.\<close>

definition py_bytes :: "int list \<Rightarrow> py_error + byte list" where
  "py_bytes xs =
     (if \<forall>x \<in> set xs. 0 \<le> x \<and> x < 256 then Inr (map word_of_int xs) else Inl ValueError)"

text \<open>\<open>bytes([v])\<close> for the cached LED count.\<close>

definition count_byte :: "json \<Rightarrow> py_error + byte list" where
  "count_byte v = (case py_int_of v of None \<Rightarrow> Inl TypeError | Some n \<Rightarrow> py_bytes [n])"

text \<open>\<open>len(frame) != v\<close>: a value that is not a number differs from every length.\<close>

definition len_differs :: "nat \<Rightarrow> json \<Rightarrow> bool" where
  "len_differs k v = (case py_int_of v of None \<Rightarrow> True | Some n \<Rightarrow> int k \<noteq> n)"

text \<open>
  \<open>base64.b64decode(v)\<close>. The decoder of the standard library is a parameter \<open>dec\<close>
  for strings; any other value is a \<open>TypeError\<close>.
\<close>

fun b64decode :: "(string \<Rightarrow> py_error + byte list) \<Rightarrow> json \<Rightarrow> py_error + byte list" where
  "b64decode dec (JStr s) = dec s"
| "b64decode dec _ = Inl TypeError"

text \<open>The loop \<open>for x in frame: payload.extend(list(x))\<close>.\<close>

fun extend_payload :: "int list \<Rightarrow> frame \<Rightarrow> int list" where
  "extend_payload acc [] = acc"
| "extend_payload acc ((r, g, b) # xs) = extend_payload (acc @ [r, g, b]) xs"

definition sendto :: "byte list \<Rightarrow> twinkly \<Rightarrow> world \<Rightarrow> unit result" where
  "sendto bs t w =
     (if udp_up w then
        (Inr (), t,
         w\<lparr>udp_log := udp_log w @ [\<lparr>dest_host = host t, dest_port = rt_port t, bytes_of = bs\<rparr>]\<rparr>)
      else (Inl OSError, t, w))"

definition send_frame ::
  "(string \<Rightarrow> py_error + byte list) \<Rightarrow> nat \<Rightarrow> frame \<Rightarrow> twinkly \<Rightarrow> world \<Rightarrow> unit result" where
  "send_frame dec n fr t w =
     (case length_led n t w of
        (Inl e, t1, w1) \<Rightarrow> (Inl e, t1, w1)
      | (Inr len, t1, w1) \<Rightarrow>
         if len_differs (length fr) len then (Inl ValueError, t1, w1)
         else
           (case token n t1 w1 of
              (Inl e, t2, w2) \<Rightarrow> (Inl e, t2, w2)
            | (Inr tok, t2, w2) \<Rightarrow>
               (case b64decode dec tok of
                  Inl e \<Rightarrow> (Inl e, t2, w2)
                | Inr raw \<Rightarrow>
                   (case length_led n t2 w2 of
                      (Inl e, t3, w3) \<Rightarrow> (Inl e, t3, w3)
                    | (Inr len2, t3, w3) \<Rightarrow>
                       (case count_byte len2 of
                          Inl e \<Rightarrow> (Inl e, t3, w3)
                        | Inr cb \<Rightarrow>
                           (case py_bytes (extend_payload [] fr) of
                              Inl e \<Rightarrow> (Inl e, t3, w3)
                            | Inr pb \<Rightarrow> sendto ([1] @ raw @ cb @ pb) t3 w3))))))"

section \<open>Command line\<close>

text \<open>
  \<open>main\<close> is the same in \<open>ttls.py\<close> and \<open>ttls/cli.py\<close> but for one flag: \<open>--file\<close> of the
  subcommand \<open>movie\<close> is required in the first and optional in the second. A command line
  is the global flags and at most one subcommand with its own options; \<open>parse_args\<close>
  gives the namespace \<open>argparse\<close> builds from the declarations of the source: the global
  attributes, \<open>command\<close>, and the attributes of the chosen subcommand only.
\<close>

datatype subcommand =
    Network | Firmware | Details | Token
  | Name "string option" | Mode "string option" | Mqtt "string option"
  | Movie "int option" "string option"

record cmdline =
  arg_host :: string
  arg_debug :: bool
  arg_json :: bool
  arg_sub :: "subcommand option"

type_synonym namespace = "string \<Rightarrow> json option"

definition TWINKLY_MODES :: "string list" where
  "TWINKLY_MODES = [''rt'', ''movie'', ''off'', ''demo'', ''effect'']"

fun opt_str :: "string option \<Rightarrow> json" where
  "opt_str None = JNull"
| "opt_str (Some s) = JStr s"

fun sub_attrs :: "bool \<Rightarrow> subcommand \<Rightarrow> py_error + (string \<times> json) list" where
  "sub_attrs fr Network = Inr [(''command'', JStr ''network'')]"
| "sub_attrs fr Firmware = Inr [(''command'', JStr ''firmware'')]"
| "sub_attrs fr Details = Inr [(''command'', JStr ''details'')]"
| "sub_attrs fr Token = Inr [(''command'', JStr ''token'')]"
| "sub_attrs fr (Name n) = Inr [(''command'', JStr ''name''), (''name'', opt_str n)]"
| "sub_attrs fr (Mode None) = Inr [(''command'', JStr ''mode''), (''mode'', JNull)]"
| "sub_attrs fr (Mode (Some m)) =
     (if m \<in> set TWINKLY_MODES then Inr [(''command'', JStr ''mode''), (''mode'', JStr m)]
      else Inl SystemExit)"
| "sub_attrs fr (Mqtt j) = Inr [(''command'', JStr ''mqtt''), (''mqtt_json'', opt_str j)]"
| "sub_attrs fr (Movie d f) =
     (if fr \<and> f = None then Inl SystemExit
      else Inr [(''command'', JStr ''movie''),
                (''movie_delay'', JInt (case d of None \<Rightarrow> 100 | Some x \<Rightarrow> x)),
                (''movie_file'', opt_str f)])"

definition parse_args :: "bool \<Rightarrow> cmdline \<Rightarrow> py_error + namespace" where
  "parse_args fr c =
     (let g = [(''host'', JStr (arg_host c)), (''debug'', JBool (arg_debug c)),
               (''json'', JBool (arg_json c))]
      in case arg_sub c of
           None \<Rightarrow> Inr (map_of (g @ [(''command'', JNull)]))
         | Some sc \<Rightarrow>
            (case sub_attrs fr sc of
               Inl e \<Rightarrow> Inl e
             | Inr attrs \<Rightarrow> Inr (map_of (g @ attrs))))"

text \<open>\<open>args.k\<close>.\<close>

definition getattr :: "namespace \<Rightarrow> string \<Rightarrow> py_error + json" where
  "getattr args k = (case args k of None \<Rightarrow> Inl AttributeError | Some v \<Rightarrow> Inr v)"

text \<open>The truth value of \<open>if v:\<close>.\<close>

fun truthy :: "json \<Rightarrow> bool" where
  "truthy JNull = False"
| "truthy (JBool b) = b"
| "truthy (JInt n) = (n \<noteq> 0)"
| "truthy (JStr s) = (s \<noteq> [])"
| "truthy (JObj kvs) = (kvs \<noteq> [])"

text \<open>\<open>open(v, 'rb').read()\<close>; \<open>argparse\<close> gives a string for \<open>--file\<close>.\<close>

fun read_file :: "world \<Rightarrow> json \<Rightarrow> py_error + byte list" where
  "read_file w (JStr p) = (case files w p of None \<Rightarrow> Inl OSError | Some bs \<Rightarrow> Inr bs)"
| "read_file w _ = Inl TypeError"

text \<open>
  \<open>json.loads(v)\<close>. The parser of the standard library is a parameter \<open>loads\<close> for
  strings; any other value is a \<open>TypeError\<close>.
\<close>

fun json_loads :: "(string \<Rightarrow> py_error + json) \<Rightarrow> json \<Rightarrow> py_error + json" where
  "json_loads loads (JStr s) = loads s"
| "json_loads loads _ = Inl TypeError"

text \<open>\<open>int(x)\<close> for a quotient: truncation towards zero.\<close>

definition py_trunc :: "rat \<Rightarrow> int" where
  "py_trunc q = (if 0 \<le> q then \<lfloor>q\<rfloor> else \<lceil>q\<rceil>)"

text \<open>
  \<open>int(len(movie) / 3 / t.length)\<close>. The source divides floats. For a buffer below
  \<open>2^50\<close> bytes and a count below \<open>2^49\<close> in absolute value, every number that decides
  the result is a float, rounding is monotone, and so the truncated float quotient is
  the truncated exact quotient; the model computes that. For operands beyond these
  bounds, where rounding can change the result and a count too large for a float
  raises \<open>OverflowError\<close>, the value is the parameter \<open>fq\<close>.
\<close>

definition frames_number :: "(nat \<Rightarrow> int \<Rightarrow> py_error + int) \<Rightarrow> nat \<Rightarrow> json \<Rightarrow> py_error + int"
where
  "frames_number fq len v =
     (case py_int_of v of
        None \<Rightarrow> Inl TypeError
      | Some d \<Rightarrow>
         if d = 0 then Inl ZeroDivisionError
         else if len < 2 ^ 50 \<and> \<bar>d\<bar> < 2 ^ 49
           then Inr (py_trunc (of_nat len / 3 / of_int d))
         else fq len d)"

text \<open>An assignment \<open>res = ...\<close>: the variable is bound when the call returns.\<close>

definition bound :: "json result \<Rightarrow> json option result" where
  "bound m =
     (case m of
        (Inl e, t1, w1) \<Rightarrow> (Inl e, t1, w1)
      | (Inr j, t1, w1) \<Rightarrow> (Inr (Some j), t1, w1))"

text \<open>The branch \<open>movie\<close> of the dispatch.\<close>

definition movie_branch :: "nat \<Rightarrow> namespace \<Rightarrow> twinkly \<Rightarrow> world \<Rightarrow> json option result" where
  "movie_branch n args t w =
     (case getattr args ''movie_file'' of
        Inl e \<Rightarrow> (Inl e, t, w)
      | Inr f \<Rightarrow>
         if truthy f then
           (case read_file w f of
              Inl e \<Rightarrow> (Inl e, t, w)
            | Inr movie \<Rightarrow>
               (case getattr args ''movie_delay'' of
                  Inl e \<Rightarrow> (Inl e, t, w)
                | Inr delay \<Rightarrow>
                   (case length_led n t w of
                      (Inl e, t1, w1) \<Rightarrow> (Inl e, t1, w1)
                    | (Inr leds, t1, w1) \<Rightarrow>
                       (case length_led n t1 w1 of
                          (Inl e, t2, w2) \<Rightarrow> (Inl e, t2, w2)
                        | (Inr leds2, t2, w2) \<Rightarrow>
                           (case frames_number (float_quot w2) (length movie) leds2 of
                              Inl e \<Rightarrow> (Inl e, t2, w2)
                            | Inr fnum \<Rightarrow>
                               (case mode_setter n ''movie'' t2 w2 of
                                  (Inl e, t3, w3) \<Rightarrow> (Inl e, t3, w3)
                                | (Inr _, t3, w3) \<Rightarrow>
                                   (case set_movie_config n
                                           (JObj [(''frame_delay'', delay),
                                                  (''leds_number'', leds),
                                                  (''frames_number'', JInt fnum)]) t3 w3 of
                                      (Inl e, t4, w4) \<Rightarrow> (Inl e, t4, w4)
                                    | (Inr _, t4, w4) \<Rightarrow>
                                       bound (upload_movie n movie t4 w4))))))))
         else bound (get_movie_config n t w))"

text \<open>
  The branch \<open>mqtt\<close>. With a configuration given, the source evaluates
  \<open>res if args.mode is None else t.set_mqtt(data)\<close>, an expression statement that
  binds nothing.
\<close>

definition mqtt_branch ::
  "(string \<Rightarrow> py_error + json) \<Rightarrow> nat \<Rightarrow> namespace \<Rightarrow> twinkly \<Rightarrow> world \<Rightarrow> json option result"
where
  "mqtt_branch loads n args t w =
     (case getattr args ''mqtt_json'' of
        Inl e \<Rightarrow> (Inl e, t, w)
      | Inr mj \<Rightarrow>
         if mj = JNull then bound (get_mqtt n t w)
         else
           (case json_loads loads mj of
              Inl e \<Rightarrow> (Inl e, t, w)
            | Inr data \<Rightarrow>
               (case getattr args ''mode'' of
                  Inl e \<Rightarrow> (Inl e, t, w)
                | Inr m \<Rightarrow>
                   if m = JNull then (Inl UnboundLocalError, t, w)
                   else
                     (case set_mqtt n data t w of
                        (Inl e, t1, w1) \<Rightarrow> (Inl e, t1, w1)
                      | (Inr _, t1, w1) \<Rightarrow> (Inr None, t1, w1)))))"

text \<open>The chain \<open>if args.command == ... elif ... else\<close>; the result is \<open>res\<close>, if bound.\<close>

definition dispatch ::
  "(string \<Rightarrow> py_error + json) \<Rightarrow> nat \<Rightarrow> namespace \<Rightarrow> twinkly \<Rightarrow> world \<Rightarrow> json option result"
where
  "dispatch loads n args t w =
     (case getattr args ''command'' of
        Inl e \<Rightarrow> (Inl e, t, w)
      | Inr c \<Rightarrow>
         if c = JStr ''name'' then
           (case getattr args ''name'' of
              Inl e \<Rightarrow> (Inl e, t, w)
            | Inr v \<Rightarrow>
               if v = JNull then bound (get_name n t w)
               else bound (set_name n (JObj [(''name'', v)]) t w))
         else if c = JStr ''network'' then bound (get_network_status n t w)
         else if c = JStr ''firmware'' then bound (get_firmware_version n t w)
         else if c = JStr ''details'' then bound (get_details n t w)
         else if c = JStr ''mode'' then
           (case getattr args ''mode'' of
              Inl e \<Rightarrow> (Inl e, t, w)
            | Inr v \<Rightarrow>
               if v = JNull then bound (get_mode n t w)
               else bound (set_mode n (JObj [(''mode'', v)]) t w))
         else if c = JStr ''mqtt'' then mqtt_branch loads n args t w
         else if c = JStr ''movie'' then movie_branch n args t w
         else (Inl UnknownCommand, t, w))"

text \<open>
  \<open>main\<close> after \<open>parse_args\<close>: the client is created (which logs in), the command is
  dispatched and \<open>res\<close> is printed. The logging set up under \<open>--debug\<close> is not modelled.
\<close>

definition run_main ::
  "(string \<Rightarrow> py_error + json) \<Rightarrow> nat \<Rightarrow> namespace \<Rightarrow> world \<Rightarrow> (py_error + unit) \<times> world"
where
  "run_main loads n args w =
     (case getattr args ''debug'' of
        Inl e \<Rightarrow> (Inl e, w)
      | Inr _ \<Rightarrow>
         (case getattr args ''host'' of
            Inl e \<Rightarrow> (Inl e, w)
          | Inr (JStr h) \<Rightarrow>
             (case twinkly_init n h True w of
                (Inl e, t1, w1) \<Rightarrow> (Inl e, w1)
              | (Inr _, t1, w1) \<Rightarrow>
                 (case dispatch loads n args t1 w1 of
                    (Inl e, t2, w2) \<Rightarrow> (Inl e, w2)
                  | (Inr res, t2, w2) \<Rightarrow>
                     (case getattr args ''json'' of
                        Inl e \<Rightarrow> (Inl e, w2)
                      | Inr j \<Rightarrow>
                         (case res of
                            None \<Rightarrow> (Inl UnboundLocalError, w2)
                          | Some v \<Rightarrow>
                             (Inr (),
                              w2\<lparr>stdout := stdout w2 @
                                    [if truthy j then Compact v else Pretty v]\<rparr>)))))
          | Inr _ \<Rightarrow> (Inl TypeError, w)))"

definition main ::
  "bool \<Rightarrow> (string \<Rightarrow> py_error + json) \<Rightarrow> nat \<Rightarrow> cmdline \<Rightarrow> world \<Rightarrow> (py_error + unit) \<times> world"
where
  "main fr loads n c w =
     (case parse_args fr c of
        Inl e \<Rightarrow> (Inl e, w)
      | Inr args \<Rightarrow> run_main loads n args w)"

section \<open>Notions of the specification\<close>






text \<open>A channel value that fits a byte, and a frame of such values.\<close>

definition in_byte :: "int \<Rightarrow> bool" where
  "in_byte x \<longleftrightarrow> 0 \<le> x \<and> x < 256"

fun frame_ok :: "frame \<Rightarrow> bool" where
  "frame_ok [] = True"
| "frame_ok ((r, g, b) # xs) = (in_byte r \<and> in_byte g \<and> in_byte b \<and> frame_ok xs)"

text \<open>The payload the specification describes: the channel bytes of each LED, in order.\<close>

fun payload_bytes :: "frame \<Rightarrow> byte list" where
  "payload_bytes [] = []"
| "payload_bytes ((r, g, b) # xs) =
     word_of_int r # word_of_int g # word_of_int b # payload_bytes xs"

text \<open>Reading the payload of a datagram back: three bytes per LED, in order.\<close>

fun decode_payload :: "byte list \<Rightarrow> frame" where
  "decode_payload (r # g # b # rest) = (uint r, uint g, uint b) # decode_payload rest"
| "decode_payload _ = []"

text \<open>The requests that \<open>login\<close> and \<open>verify_login\<close> put on the wire.\<close>

definition login_request :: "twinkly \<Rightarrow> world \<Rightarrow> http_entry" where
  "login_request t w =
     \<lparr>verb_of = POST, url = base t @ ''/login'', auth = x_auth_token t,
      payload = JsonBody (JObj [(''challenge'', JStr (urandom_b64 w (length (http_log w))))]),
      via_helper = False, sent_at = clock w, expires_then = expires t\<rparr>"

definition verify_request :: "twinkly \<Rightarrow> world \<Rightarrow> http_entry" where
  "verify_request t w =
     \<lparr>verb_of = POST, url = base t @ ''/verify'', auth = x_auth_token t,
      payload = JsonBody (JObj []), via_helper = True, sent_at = clock w,
      expires_then = expires t\<rparr>"

text \<open>
  What a call may change: only the HTTP trace, the clock and the authentication fields.
\<close>

definition http_only :: "twinkly \<Rightarrow> world \<Rightarrow> twinkly \<Rightarrow> world \<Rightarrow> bool" where
  "http_only t w t' w' \<longleftrightarrow>
     host t' = host t \<and> rt_port t' = rt_port t \<and> u_length t' = u_length t \<and>
     device w' = device w \<and> udp_log w' = udp_log w \<and> udp_up w' = udp_up w \<and>
     files w' = files w \<and> stdout w' = stdout w \<and> urandom_b64 w' = urandom_b64 w \<and>
     header_clean w' = header_clean w \<and> float_quot w' = float_quot w \<and>
     (\<exists>new. http_log w' = http_log w @ new)"

section \<open>A device and a world to run the client in\<close>

text \<open>
  The device \<open>h\<close> grants the token \<open>QUJD\<close> for \<open>ttl\<close> seconds, answers \<open>/verify\<close> with the
  status \<open>vstatus\<close> after \<open>d\<close> seconds, and answers everything else at once with a body
  that reports \<open>leds\<close> LEDs. The world starts at the time \<open>now\<close> with movie files of
  ten, nine and eight bytes; its HTTP library accepts every string as a header.
\<close>

definition login_body :: "int \<Rightarrow> json" where
  "login_body ttl =
     JObj [(''authentication_token'', JStr ''QUJD''),
           (''authentication_token_expires_in'', JInt ttl)]"

definition demo_device :: "int \<Rightarrow> nat \<Rightarrow> nat \<Rightarrow> int \<Rightarrow> http_entry list \<Rightarrow> reply \<times> nat" where
  "demo_device ttl vstatus d leds lg =
     (if lg = [] then (Unreachable, 0)
      else if url (last lg) = ''http://h/xled/v1/login''
        then (Reply 200 (Some (login_body ttl)), 0)
      else if url (last lg) = ''http://h/xled/v1/verify''
        then (Reply vstatus (Some (JObj [])), d)
      else (Reply 200 (Some (JObj [(''number_of_led'', JInt leds)])), 0))"

definition demo_world :: "int \<Rightarrow> nat \<Rightarrow> nat \<Rightarrow> int \<Rightarrow> int \<Rightarrow> world" where
  "demo_world ttl vstatus d leds now =
     \<lparr>clock = now, device = demo_device ttl vstatus d leds, urandom_b64 = (\<lambda>k. ''AAAA''),
      http_log = [], udp_up = True, udp_log = [],
      files = (\<lambda>p. if p = ''m10.bin'' then Some (replicate 10 0)
                   else if p = ''m9.bin'' then Some (replicate 9 0)
                   else if p = ''m8.bin'' then Some (replicate 8 0) else None),
      stdout = [], header_clean = (\<lambda>s. True), float_quot = (\<lambda>a b. Inl OverflowError)\<rparr>"

text \<open>The client after a login at time 1000 that granted \<open>QUJD\<close> for 3600 seconds.\<close>

definition logged_in :: twinkly where
  "logged_in =
     \<lparr>host = ''h'', rt_port = 7777, expires = Some 4600, u_token = JStr ''QUJD'',
      u_length = JNull, x_auth_token = Some (JStr ''QUJD'')\<rparr>"

text \<open>The base64 text \<open>QUJD\<close> stands for the three bytes of \<open>ABC\<close>.\<close>

definition demo_dec :: "string \<Rightarrow> py_error + byte list" where
  "demo_dec s = (if s = ''QUJD'' then Inr [65, 66, 67] else Inl BinasciiError)"

definition demo_loads :: "string \<Rightarrow> py_error + json" where
  "demo_loads s = (if s = ''{}'' then Inr (JObj []) else Inl JSONDecodeError)"

lemmas demo_defs = demo_world_def demo_device_def login_body_def new_twinkly_def
  logged_in_def demo_dec_def demo_loads_def

lemmas client_defs = login_def session_request_def raise_for_status_def response_json_def
  add_seconds_def token_expired_def base_def u_get_def checked_json_def Let_def

section \<open>What a call leaves alone\<close>

lemma http_only_refl: "http_only t w t w"
  by (simp add: http_only_def)

lemma http_only_trans:
  "http_only t w t1 w1 \<Longrightarrow> http_only t1 w1 t2 w2 \<Longrightarrow> http_only t w t2 w2"
  by (auto simp: http_only_def)

lemma session_request_http_only:
  "session_request h v ep b t w = (r, t', w') \<Longrightarrow> http_only t w t' w'"
  by (auto simp: session_request_def Let_def http_only_def split: reply.splits sum.splits)

lemma session_request_same_client:
  "session_request h v ep b t w = (r, t', w') \<Longrightarrow> t' = t"
  by (auto simp: session_request_def Let_def split: reply.splits sum.splits)

lemma login_http_only: "login t w = (r, t', w') \<Longrightarrow> http_only t w t' w'"
  by (auto simp: login_def session_request_def Let_def http_only_def
           split: reply.splits sum.splits prod.splits if_splits)

lemma auth_http_only:
  "(\<forall>r t' w'. ensure_token n t w = (r, t', w') \<longrightarrow> http_only t w t' w')"
  "(\<forall>r t' w'. verify_login n t w = (r, t', w') \<longrightarrow> http_only t w t' w')"
  "(\<forall>r t' w'. u_post n ep b t w = (r, t', w') \<longrightarrow> http_only t w t' w')"
proof (induction n t w and n t w and n ep b t w rule: ensure_token_verify_login_u_post.induct)
  case (1 t w)
  show ?case by (simp add: http_only_refl)
next
  case (2 n t w)
  show ?case
  proof (intro allI impI)
    fix r t' w'
    assume run: "ensure_token (Suc n) t w = (r, t', w')"
    show "http_only t w t' w'"
    proof (cases "token_expired t w")
      case False
      with run show ?thesis by (simp add: http_only_refl)
    next
      case True
      obtain r1 t1 w1 where lg: "login t w = (r1, t1, w1)" by (cases "login t w") auto
      have h1: "http_only t w t1 w1" using lg by (rule login_http_only)
      show ?thesis
      proof (cases r1)
        case (Inl e)
        with run True lg have "t' = t1" "w' = w1" by auto
        with h1 show ?thesis by simp
      next
        case (Inr u)
        with run True lg have v: "verify_login n t1 w1 = (r, t', w')" by auto
        have "http_only t1 w1 t' w'"
          using "2.IH"[OF True, of r1 "(t1, w1)" u t1 w1] lg Inr v by auto
        with h1 show ?thesis by (rule http_only_trans)
      qed
    qed
  qed
next
  case (3 n t w)
  show ?case
  proof (intro allI impI)
    fix r t' w'
    assume run: "verify_login n t w = (r, t', w')"
    obtain r1 t1 w1 where p: "u_post n ''verify'' (JsonBody (JObj [])) t w = (r1, t1, w1)"
      by (cases "u_post n ''verify'' (JsonBody (JObj [])) t w") auto
    have "t' = t1" "w' = w1"
      using run p by (auto split: sum.splits)
    with 3 p show "http_only t w t' w'" by auto
  qed
next
  case (4 n ep b t w)
  show ?case
  proof (intro allI impI)
    fix r t' w'
    assume run: "u_post n ep b t w = (r, t', w')"
    obtain r1 t1 w1 where e: "ensure_token n t w = (r1, t1, w1)"
      by (cases "ensure_token n t w") auto
    have h1: "http_only t w t1 w1" using 4 e by auto
    show "http_only t w t' w'"
    proof (cases r1)
      case (Inl x)
      with run e have "t' = t1" "w' = w1" by auto
      with h1 show ?thesis by simp
    next
      case (Inr u)
      with run e have "session_request True POST ep b t1 w1 = (r, t', w')" by auto
      then have "http_only t1 w1 t' w'" by (rule session_request_http_only)
      with h1 show ?thesis by (rule http_only_trans)
    qed
  qed
qed

lemma ensure_token_http_only: "ensure_token n t w = (r, t', w') \<Longrightarrow> http_only t w t' w'"
  using auth_http_only(1) by blast


lemma u_get_http_only:
  assumes "u_get n ep t w = (r, t', w')"
  shows "http_only t w t' w'"
proof -
  obtain r1 t1 w1 where e: "ensure_token n t w = (r1, t1, w1)"
    by (cases "ensure_token n t w") auto
  have h1: "http_only t w t1 w1" using e by (rule ensure_token_http_only)
  show ?thesis
  proof (cases r1)
    case (Inl x)
    with assms e have "t' = t1" "w' = w1" by (auto simp: u_get_def)
    with h1 show ?thesis by simp
  next
    case (Inr u)
    with assms e have "session_request True GET ep NoBody t1 w1 = (r, t', w')"
      by (auto simp: u_get_def)
    then have "http_only t1 w1 t' w'" by (rule session_request_http_only)
    with h1 show ?thesis by (rule http_only_trans)
  qed
qed

lemma token_http_only:
  assumes "token n t w = (r, t', w')"
  shows "http_only t w t' w'"
proof -
  obtain r1 t1 w1 where e: "ensure_token n t w = (r1, t1, w1)"
    by (cases "ensure_token n t w") auto
  with assms have "t' = t1" "w' = w1" by (auto simp: token_def split: sum.splits)
  with ensure_token_http_only[OF e] show ?thesis by simp
qed

lemma ensure_token_valid_noop:
  "\<not> token_expired t w \<Longrightarrow> ensure_token (Suc n) t w = (Inr (), t, w)"
  by simp
section \<open>Requests sent through the helpers\<close>

















section \<open>Renewal\<close>


text \<open>
  Claim C2 on the code. The scenario of the specification runs as it says: a login at
  time 1000 that grants 3600 seconds stores the expiry 4600; a call at 4601 or at 4600
  renews with one login and one verification; a call at 4599 sends nothing and returns
  the client as it was. But the test reads the expiry and never the token: after a
  \<open>logout\<close> at time 1000 no token is stored, the expiry 4600 still is, and
  \<open>ensure_token\<close> sends nothing.
\<close>

theorem cleared_token_not_renewed:
  "ensure_token (Suc (Suc 0)) (new_twinkly ''h'') (demo_world 3600 200 0 2 1000) =
     (Inr (), logged_in, (demo_world 3600 200 0 2 1000)\<lparr>http_log :=
        [login_request (new_twinkly ''h'') (demo_world 3600 200 0 2 1000),
         verify_request logged_in (demo_world 3600 200 0 2 1000)]\<rparr>) \<and>
   expires logged_in = Some (1000 + 3600) \<and>
   ensure_token (Suc (Suc 0)) logged_in (demo_world 3600 200 0 2 4601) =
     (Inr (), logged_in\<lparr>expires := Some (4601 + 3600)\<rparr>,
      (demo_world 3600 200 0 2 4601)\<lparr>http_log :=
        [login_request logged_in (demo_world 3600 200 0 2 4601),
         verify_request (logged_in\<lparr>expires := Some (4601 + 3600)\<rparr>)
           (demo_world 3600 200 0 2 4601)]\<rparr>) \<and>
   ensure_token (Suc (Suc 0)) logged_in (demo_world 3600 200 0 2 4600) =
     (Inr (), logged_in\<lparr>expires := Some (4600 + 3600)\<rparr>,
      (demo_world 3600 200 0 2 4600)\<lparr>http_log :=
        [login_request logged_in (demo_world 3600 200 0 2 4600),
         verify_request (logged_in\<lparr>expires := Some (4600 + 3600)\<rparr>)
           (demo_world 3600 200 0 2 4600)]\<rparr>) \<and>
   ensure_token (Suc (Suc 0)) logged_in (demo_world 3600 200 0 2 4599) =
     (Inr (), logged_in, demo_world 3600 200 0 2 4599) \<and>
   fst (snd (logout (Suc 0) logged_in (demo_world 3600 200 0 2 1000))) =
     logged_in\<lparr>u_token := JNull\<rparr> \<and>
   u_token (logged_in\<lparr>u_token := JNull\<rparr>) = JNull \<and>
   expires (logged_in\<lparr>u_token := JNull\<rparr>) = Some 4600 \<and>
   ensure_token (Suc (Suc 0)) (logged_in\<lparr>u_token := JNull\<rparr>)
       (snd (snd (logout (Suc 0) logged_in (demo_world 3600 200 0 2 1000)))) =
     (Inr (), logged_in\<lparr>u_token := JNull\<rparr>,
      snd (snd (logout (Suc 0) logged_in (demo_world 3600 200 0 2 1000))))"
  by (simp add: demo_defs client_defs logout_def login_request_def verify_request_def)




text \<open>
  Claim C7 on the code. A logout at time 1000 of a client whose token expires at 4600
  clears \<open>_token\<close> only: the expiry and the header stay. The next \<open>ensure_token\<close>
  sends nothing, the property \<open>token\<close> returns \<open>None\<close>, and \<open>get_name\<close> goes out
  with the token of the session that was logged out.
\<close>

theorem logout_keeps_session:
  "logout (Suc 0) logged_in (demo_world 3600 200 0 2 1000) =
     (Inr (), logged_in\<lparr>u_token := JNull\<rparr>,
      (demo_world 3600 200 0 2 1000)\<lparr>http_log :=
        [\<lparr>verb_of = POST, url = ''http://h/xled/v1/logout'', auth = Some (JStr ''QUJD''),
          payload = JsonBody (JObj []), via_helper = True, sent_at = 1000,
          expires_then = Some 4600\<rparr>]\<rparr>) \<and>
   expires (logged_in\<lparr>u_token := JNull\<rparr>) = Some 4600 \<and>
   x_auth_token (logged_in\<lparr>u_token := JNull\<rparr>) = Some (JStr ''QUJD'') \<and>
   ensure_token (Suc 0) (logged_in\<lparr>u_token := JNull\<rparr>)
       (snd (snd (logout (Suc 0) logged_in (demo_world 3600 200 0 2 1000)))) =
     (Inr (), logged_in\<lparr>u_token := JNull\<rparr>,
      snd (snd (logout (Suc 0) logged_in (demo_world 3600 200 0 2 1000)))) \<and>
   fst (token (Suc 0) (logged_in\<lparr>u_token := JNull\<rparr>)
       (snd (snd (logout (Suc 0) logged_in (demo_world 3600 200 0 2 1000))))) = Inr JNull \<and>
   map url (http_log (snd (snd (get_name (Suc 0) (logged_in\<lparr>u_token := JNull\<rparr>)
       (snd (snd (logout (Suc 0) logged_in (demo_world 3600 200 0 2 1000)))))))) =
     [''http://h/xled/v1/logout'', ''http://h/xled/v1/device_name''] \<and>
   map auth (http_log (snd (snd (get_name (Suc 0) (logged_in\<lparr>u_token := JNull\<rparr>)
       (snd (snd (logout (Suc 0) logged_in (demo_world 3600 200 0 2 1000)))))))) =
     [Some (JStr ''QUJD''), Some (JStr ''QUJD'')]"
  by (simp add: demo_defs client_defs get_name_def logout_def token_def)

section \<open>Realtime frames: what is sent\<close>

lemma length_led_cached:
  "u_length t \<noteq> JNull \<Longrightarrow> length_led n t w = (Inr (u_length t), t, w)"
  by (simp add: length_led_def)

lemma token_valid:
  "\<not> token_expired t w \<Longrightarrow> token (Suc n) t w = (Inr (u_token t), t, w)"
  by (simp add: token_def)

lemma checked_json_world:
  "checked_json m = (r, t', w') \<Longrightarrow> t' = fst (snd m) \<and> w' = snd (snd m)"
  by (cases m) (auto simp: checked_json_def split: sum.splits)

lemma get_details_udp:
  assumes "get_details n t w = (r, t', w')"
  shows "udp_log w' = udp_log w"
proof -
  obtain r1 t1 w1 where g: "u_get n ''gestalt'' t w = (r1, t1, w1)"
    by (cases "u_get n ''gestalt'' t w") auto
  from u_get_http_only[OF g] have "udp_log w1 = udp_log w" by (simp add: http_only_def)
  moreover from assms g have "w' = w1"
    using checked_json_world[of "u_get n ''gestalt'' t w" r t' w'] by (simp add: get_details_def)
  ultimately show ?thesis by simp
qed

lemma length_led_udp:
  assumes "length_led n t w = (r, t', w')"
  shows "udp_log w' = udp_log w"
proof (cases "u_length t = JNull")
  case False
  with assms show ?thesis by (simp add: length_led_def)
next
  case True
  obtain r1 t1 w1 where g: "get_details n t w = (r1, t1, w1)"
    by (cases "get_details n t w") auto
  from assms True g have "w' = w1"
    by (auto simp: length_led_def split: sum.splits)
  with get_details_udp[OF g] show ?thesis by simp
qed

lemma token_udp:
  "token n t w = (r, t', w') \<Longrightarrow> udp_log w' = udp_log w"
  using token_http_only[of n t w r t' w'] by (simp add: http_only_def)

lemma extend_payload_concat:
  "extend_payload acc fr = acc @ concat (map (\<lambda>(r, g, b). [r, g, b]) fr)"
  by (induction acc fr rule: extend_payload.induct) simp_all

lemma frame_ok_concat:
  "frame_ok fr \<longleftrightarrow> (\<forall>x \<in> set (concat (map (\<lambda>(r, g, b). [r, g, b]) fr)). in_byte x)"
  by (induction fr rule: frame_ok.induct) auto

lemma frame_ok_iff:
  "frame_ok fr \<longleftrightarrow> (\<forall>x \<in> set (extend_payload [] fr). 0 \<le> x \<and> x < 256)"
  using frame_ok_concat[of fr] by (simp add: extend_payload_concat in_byte_def)

lemma payload_bytes_map:
  "map word_of_int (extend_payload [] fr) = payload_bytes fr"
  by (induction fr rule: payload_bytes.induct) (simp_all add: extend_payload_concat)

lemma py_bytes_payload:
  "py_bytes (extend_payload [] fr) =
     (if frame_ok fr then Inr (payload_bytes fr) else Inl ValueError)"
  using frame_ok_iff[of fr] by (simp add: py_bytes_def payload_bytes_map)

lemma uint_byte: "in_byte x \<Longrightarrow> uint (word_of_int x :: byte) = x"
  by (simp add: in_byte_def uint_word_of_int)

lemma decode_payload_bytes: "frame_ok fr \<Longrightarrow> decode_payload (payload_bytes fr) = fr"
  by (induction fr rule: frame_ok.induct) (simp_all add: uint_byte)

lemma length_payload_bytes: "length (payload_bytes fr) = 3 * length fr"
  by (induction fr rule: payload_bytes.induct) simp_all

lemma count_byte_small:
  "k \<le> 255 \<Longrightarrow> count_byte (JInt (int k)) = Inr [word_of_nat k]"
  by (simp add: count_byte_def py_bytes_def)

lemma count_byte_large: "255 < c \<Longrightarrow> count_byte (JInt c) = Inl ValueError"
  by (simp add: count_byte_def py_bytes_def)

lemma unat_count: "k \<le> 255 \<Longrightarrow> unat (word_of_nat k :: byte) = k"
  by (simp add: unat_of_nat)

text \<open>
  Claim C4. With a cached LED count that differs from the length of the frame,
  \<open>send_frame\<close> raises the \<open>ValueError\<close> of its first line (the frame length error of
  the specification) and returns the client and the world untouched: no HTTP request, no
  datagram. This holds whatever depth of calls is left, for shorter and for longer frames.
\<close>

theorem send_frame_length_mismatch:
  assumes "u_length t = JInt c" and "int (length fr) \<noteq> c"
  shows "send_frame dec n fr t w = (Inl ValueError, t, w)"
  using assms by (simp add: send_frame_def length_led_def len_differs_def)

text \<open>
  Claim C3. With a token that is a string the decoder accepts and has not expired, a
  cached LED count equal to the length of the frame and fitting one byte, channel
  values that fit a byte and a socket that sends, \<open>send_frame\<close> sends one datagram to the
  realtime port of the host: the byte 1, the decoded token, one byte whose value is the
  LED count, and the channel bytes in LED order. Being a function of token, count and
  frame, the datagram is determined by them. Read back from behind the header, the
  payload is the frame, and the datagram has \<open>1 + len(token) + 1 + 3n\<close> bytes.
\<close>

theorem send_frame_datagram:
  assumes "u_length t = JInt (int (length fr))" and "length fr \<le> 255" and "frame_ok fr"
    and "\<not> token_expired t w" and "u_token t = JStr tok" and "dec tok = Inr raw"
    and "udp_up w"
  shows "send_frame dec (Suc n) fr t w =
           (Inr (), t,
            w\<lparr>udp_log := udp_log w @
                 [\<lparr>dest_host = host t, dest_port = rt_port t,
                   bytes_of = [1] @ raw @ [word_of_nat (length fr)] @ payload_bytes fr\<rparr>]\<rparr>) \<and>
         unat (word_of_nat (length fr) :: byte) = length fr \<and>
         decode_payload (drop (1 + length raw + 1)
            ([1] @ raw @ [word_of_nat (length fr)] @ payload_bytes fr)) = fr \<and>
         length ([1] @ raw @ [word_of_nat (length fr) :: byte] @ payload_bytes fr) =
           1 + length raw + 1 + 3 * length fr"
proof -
  have "send_frame dec (Suc n) fr t w =
           (Inr (), t,
            w\<lparr>udp_log := udp_log w @
                 [\<lparr>dest_host = host t, dest_port = rt_port t,
                   bytes_of = [1] @ raw @ [word_of_nat (length fr)] @ payload_bytes fr\<rparr>]\<rparr>)"
    using assms
    by (simp add: send_frame_def length_led_def len_differs_def token_def
                  count_byte_small py_bytes_payload sendto_def)
  then show ?thesis
    using assms(2,3) by (simp add: unat_count decode_payload_bytes length_payload_bytes)
qed


text \<open>
  A frame of one LED and a frame of three for a cached count of two.
\<close>

theorem send_frame_length_mismatch_witness:
  "u_length (logged_in\<lparr>u_length := JInt 2\<rparr>) = JInt 2 \<and>
   int (length [(1, 2, 3)]) \<noteq> (2::int) \<and>
   send_frame demo_dec 0 [(1, 2, 3)] (logged_in\<lparr>u_length := JInt 2\<rparr>)
       (demo_world 3600 200 0 2 1000) =
     (Inl ValueError, logged_in\<lparr>u_length := JInt 2\<rparr>, demo_world 3600 200 0 2 1000) \<and>
   int (length [(1, 2, 3), (4, 5, 6), (7, 8, 9)]) \<noteq> (2::int) \<and>
   send_frame demo_dec 0 [(1, 2, 3), (4, 5, 6), (7, 8, 9)] (logged_in\<lparr>u_length := JInt 2\<rparr>)
       (demo_world 3600 200 0 2 1000) =
     (Inl ValueError, logged_in\<lparr>u_length := JInt 2\<rparr>, demo_world 3600 200 0 2 1000)"
  using send_frame_length_mismatch[of "logged_in\<lparr>u_length := JInt 2\<rparr>" 2 "[(1, 2, 3)]"
          demo_dec 0 "demo_world 3600 200 0 2 1000"]
        send_frame_length_mismatch[of "logged_in\<lparr>u_length := JInt 2\<rparr>" 2
          "[(1, 2, 3), (4, 5, 6), (7, 8, 9)]" demo_dec 0 "demo_world 3600 200 0 2 1000"]
  by simp

text \<open>
  Two LEDs, red and green, with the token \<open>QUJD\<close>: eleven bytes.
\<close>

theorem send_frame_datagram_witness:
  "send_frame demo_dec (Suc 0) [(255, 0, 0), (0, 255, 0)] (logged_in\<lparr>u_length := JInt 2\<rparr>)
       (demo_world 3600 200 0 2 1000) =
     (Inr (), logged_in\<lparr>u_length := JInt 2\<rparr>,
      (demo_world 3600 200 0 2 1000)\<lparr>udp_log :=
         [\<lparr>dest_host = ''h'', dest_port = 7777,
           bytes_of = [1, 65, 66, 67, 2, 255, 0, 0, 0, 255, 0]\<rparr>]\<rparr>) \<and>
   decode_payload (drop 5 [1, 65, 66, 67, 2, 255, 0, 0, 0, 255, 0]) =
     [(255, 0, 0), (0, 255, 0)] \<and>
   length [1, 65, 66, 67, 2, 255, 0, 0, 0, 255, 0 :: byte] = 1 + 3 + 1 + 3 * 2"
proof -
  let ?t = "logged_in\<lparr>u_length := JInt 2\<rparr>"
  let ?w = "demo_world 3600 200 0 2 1000"
  let ?fr = "[(255, 0, 0), (0, 255, 0)] :: frame"
  have a: "u_length ?t = JInt (int (length ?fr))" by simp
  have b: "length ?fr \<le> 255" by simp
  have c: "frame_ok ?fr" by (simp add: in_byte_def)
  have d: "\<not> token_expired ?t ?w" by (simp add: demo_defs token_expired_def)
  have e: "u_token ?t = JStr ''QUJD''" by (simp add: demo_defs)
  have f: "demo_dec ''QUJD'' = Inr [65, 66, 67]" by (simp add: demo_defs)
  have g: "udp_up ?w" by (simp add: demo_defs)
  show ?thesis
    using send_frame_datagram[where dec = demo_dec and tok = "''QUJD''" and n = 0, OF a b c d e f g]
    by (simp add: demo_defs)
qed

lemma send_frame_no_datagram:
  assumes run: "send_frame dec n fr t w = (r, t', w')" and bad: "\<not> frame_ok fr"
  shows "isl r \<and> udp_log w' = udp_log w"
proof -
  obtain r1 t1 w1 where a: "length_led n t w = (r1, t1, w1)"
    by (cases "length_led n t w") auto
  obtain r2 t2 w2 where b: "token n t1 w1 = (r2, t2, w2)"
    by (cases "token n t1 w1") auto
  obtain r3 t3 w3 where c: "length_led n t2 w2 = (r3, t3, w3)"
    by (cases "length_led n t2 w2") auto
  have u: "udp_log w1 = udp_log w" "udp_log w2 = udp_log w" "udp_log w3 = udp_log w"
    using length_led_udp[OF a] token_udp[OF b] length_led_udp[OF c] by simp_all
  show ?thesis
    using run bad a b c u
    by (auto simp: send_frame_def py_bytes_payload split: sum.splits if_splits)
qed

lemma send_frame_over_255:
  assumes "u_length t = JInt c" and "255 < c" and "send_frame dec n fr t w = (r, t', w')"
  shows "isl r \<and> udp_log w' = udp_log w"
proof (cases "len_differs (length fr) (JInt c)")
  case True
  with assms show ?thesis by (auto simp: send_frame_def length_led_def)
next
  case False
  obtain r2 t2 w2 where tk: "token n t w = (r2, t2, w2)" by (cases "token n t w") auto
  have h: "http_only t w t2 w2" using tk by (rule token_http_only)
  then have u: "udp_log w2 = udp_log w" and l: "u_length t2 = JInt c"
    using assms(1) by (simp_all add: http_only_def)
  have ll: "length_led n t2 w2 = (Inr (JInt c), t2, w2)"
    using l by (simp add: length_led_def)
  show ?thesis
    using assms False tk u ll
    by (auto simp: send_frame_def length_led_def count_byte_large split: sum.splits)
qed


text \<open>
  Claim C8. With a cached LED count above 255, \<open>send_frame\<close> ends in an error and the
  UDP trace is what it was. When the frame has that length and the token is at hand,
  the error is the \<open>ValueError\<close> of \<open>bytes([self.length])\<close>.
\<close>

theorem send_frame_count_over_255:
  assumes "u_length t = JInt c" and "255 < c"
  shows "isl (fst (send_frame dec n fr t w)) \<and>
         udp_log (snd (snd (send_frame dec n fr t w))) = udp_log w \<and>
         (int (length fr) = c \<and> \<not> token_expired t w \<and> u_token t = JStr tok \<and>
          dec tok = Inr raw \<longrightarrow>
            send_frame dec (Suc n) fr t w = (Inl ValueError, t, w))"
proof -
  obtain r t' w' where run: "send_frame dec n fr t w = (r, t', w')"
    by (cases "send_frame dec n fr t w") auto
  from send_frame_over_255[OF assms run] run
  have "isl (fst (send_frame dec n fr t w)) \<and>
        udp_log (snd (snd (send_frame dec n fr t w))) = udp_log w"
    by simp
  moreover have "send_frame dec (Suc n) fr t w = (Inl ValueError, t, w)"
    if "int (length fr) = c \<and> \<not> token_expired t w \<and> u_token t = JStr tok \<and> dec tok = Inr raw"
    using that assms
    by (simp add: send_frame_def length_led_def len_differs_def token_def count_byte_large)
  ultimately show ?thesis by blast
qed

text \<open>
  A frame of 256 LEDs for a cached count of 256.
\<close>

theorem send_frame_count_over_255_witness:
  "u_length (logged_in\<lparr>u_length := JInt 256\<rparr>) = JInt 256 \<and> (255::int) < 256 \<and>
   int (length (replicate 256 (0::int, 0::int, 0::int))) = 256 \<and>
   send_frame demo_dec (Suc 0) (replicate 256 (0, 0, 0)) (logged_in\<lparr>u_length := JInt 256\<rparr>)
       (demo_world 3600 200 0 256 1000) =
     (Inl ValueError, logged_in\<lparr>u_length := JInt 256\<rparr>, demo_world 3600 200 0 256 1000)"
proof -
  let ?t = "logged_in\<lparr>u_length := JInt 256\<rparr>"
  let ?w = "demo_world 3600 200 0 256 1000"
  have a: "u_length ?t = JInt 256" by simp
  have b: "(255::int) < 256" by simp
  have c: "int (length (replicate 256 (0::int, 0::int, 0::int))) = 256 \<and>
           \<not> token_expired ?t ?w \<and> u_token ?t = JStr ''QUJD'' \<and>
           demo_dec ''QUJD'' = Inr [65, 66, 67]"
    by (simp add: demo_defs token_expired_def)
  show ?thesis
    using a b c
      send_frame_count_over_255[where dec = demo_dec and tok = "''QUJD''" and n = 0
        and fr = "replicate 256 (0, 0, 0)" and w = ?w and raw = "[65, 66, 67]", OF a b]
    by simp
qed

text \<open>
  Claim C10. A frame with a channel value outside 0..255 makes \<open>send_frame\<close> end in an
  error with the UDP trace unchanged, so a datagram goes out only for frames whose
  channel values all fit a byte. When the header can be built, the error is the
  \<open>ValueError\<close> of \<open>bytes(payload)\<close>.
\<close>

theorem send_frame_bad_channel:
  "(\<not> frame_ok fr \<longrightarrow>
      isl (fst (send_frame dec n fr t w)) \<and>
      udp_log (snd (snd (send_frame dec n fr t w))) = udp_log w) \<and>
   (udp_log (snd (snd (send_frame dec n fr t w))) \<noteq> udp_log w \<longrightarrow> frame_ok fr) \<and>
   (\<not> frame_ok fr \<and> u_length t = JInt (int (length fr)) \<and> length fr \<le> 255 \<and>
    \<not> token_expired t w \<and> u_token t = JStr tok \<and> dec tok = Inr raw \<longrightarrow>
      send_frame dec (Suc n) fr t w = (Inl ValueError, t, w))"
proof -
  obtain r t' w' where run: "send_frame dec n fr t w = (r, t', w')"
    by (cases "send_frame dec n fr t w") auto
  have 1: "isl (fst (send_frame dec n fr t w)) \<and>
           udp_log (snd (snd (send_frame dec n fr t w))) = udp_log w" if "\<not> frame_ok fr"
    using send_frame_no_datagram[OF run that] run by simp
  have 2: "send_frame dec (Suc n) fr t w = (Inl ValueError, t, w)"
    if "\<not> frame_ok fr \<and> u_length t = JInt (int (length fr)) \<and> length fr \<le> 255 \<and>
        \<not> token_expired t w \<and> u_token t = JStr tok \<and> dec tok = Inr raw"
    using that
    by (simp add: send_frame_def length_led_def len_differs_def token_def
                  count_byte_small py_bytes_payload)
  from 1 2 show ?thesis by blast
qed

text \<open>
  A channel of 256, a channel of -1, and a frame that is sent.
\<close>

theorem send_frame_bad_channel_witness:
  "\<not> frame_ok [(255, 0, 0), (0, 256, 0)] \<and> \<not> frame_ok [(255, 0, 0), (0, 0, - 1)] \<and>
   send_frame demo_dec (Suc 0) [(255, 0, 0), (0, 256, 0)] (logged_in\<lparr>u_length := JInt 2\<rparr>)
       (demo_world 3600 200 0 2 1000) =
     (Inl ValueError, logged_in\<lparr>u_length := JInt 2\<rparr>, demo_world 3600 200 0 2 1000) \<and>
   send_frame demo_dec (Suc 0) [(255, 0, 0), (0, 0, - 1)] (logged_in\<lparr>u_length := JInt 2\<rparr>)
       (demo_world 3600 200 0 2 1000) =
     (Inl ValueError, logged_in\<lparr>u_length := JInt 2\<rparr>, demo_world 3600 200 0 2 1000) \<and>
   udp_log (snd (snd (send_frame demo_dec (Suc 0) [(255, 0, 0), (0, 255, 0)]
       (logged_in\<lparr>u_length := JInt 2\<rparr>) (demo_world 3600 200 0 2 1000)))) \<noteq>
     udp_log (demo_world 3600 200 0 2 1000) \<and>
   frame_ok [(255, 0, 0), (0, 255, 0)]"
proof -
  let ?t = "logged_in\<lparr>u_length := JInt 2\<rparr>"
  let ?w = "demo_world 3600 200 0 2 1000"
  have bad: "\<not> frame_ok [(255, 0, 0), (0, 256, 0)]" "\<not> frame_ok [(255, 0, 0), (0, 0, - 1)]"
    by (simp_all add: in_byte_def)
  have pre: "\<not> token_expired ?t ?w \<and> u_token ?t = JStr ''QUJD'' \<and>
             demo_dec ''QUJD'' = Inr [65, 66, 67]"
    by (simp add: demo_defs token_expired_def)
  have sent: "udp_log (snd (snd (send_frame demo_dec (Suc 0) [(255, 0, 0), (0, 255, 0)]
       ?t ?w))) \<noteq> udp_log ?w"
    by (simp add: demo_defs send_frame_def length_led_def len_differs_def token_def
                  token_expired_def count_byte_def py_bytes_def sendto_def)
  show ?thesis
    using bad pre sent
      send_frame_bad_channel[where dec = demo_dec and tok = "''QUJD''" and n = 0
        and fr = "[(255, 0, 0), (0, 256, 0)]" and t = ?t and w = ?w and raw = "[65, 66, 67]"]
      send_frame_bad_channel[where dec = demo_dec and tok = "''QUJD''" and n = 0
        and fr = "[(255, 0, 0), (0, 0, - 1)]" and t = ?t and w = ?w and raw = "[65, 66, 67]"]
      send_frame_bad_channel[where dec = demo_dec and n = "Suc 0"
        and fr = "[(255, 0, 0), (0, 255, 0)]" and t = ?t and w = ?w]
    by simp
qed

section \<open>Command line: movies and dispatch\<close>

lemma py_trunc_pos:
  assumes "0 < d"
  shows "py_trunc (of_nat len / 3 / of_int d) = int len div (3 * d)"
proof -
  have eq: "(of_nat len / 3 / of_int d :: rat) = of_int (int len) / of_int (3 * d)"
    by simp
  have "(0::rat) \<le> of_int (int len) / of_int (3 * d)"
    using assms by simp
  then show ?thesis
    unfolding py_trunc_def eq by (simp only: if_True floor_divide_of_int_eq)
qed

lemma frames_number_pos:
  assumes "0 < N" and "N < 2 ^ 49" and "len < 2 ^ 50"
  shows "frames_number fq len (JInt N) = Inr (int len div (3 * N))"
  using py_trunc_pos[of N len] assms by (simp add: frames_number_def)

lemma frames_number_exact:
  assumes "0 < N" and "N < 2 ^ 49" and "3 * nat N * F < 2 ^ 50"
  shows "frames_number fq (3 * nat N * F) (JInt N) = Inr (int F)"
proof -
  have "int (3 * nat N * F) = int F * (3 * N)" using assms(1) by simp
  then have "int (3 * nat N * F) div (3 * N) = int F"
    using assms(1) by simp
  with frames_number_pos[OF assms, of fq] show ?thesis by (simp only:)
qed

text \<open>Once the property \<open>length\<close> has given a count, the count is cached.\<close>

lemma length_led_caches:
  assumes "length_led n t w = (Inr v, t1, w1)" and "v \<noteq> JNull"
  shows "length_led n t1 w1 = (Inr v, t1, w1)"
proof (cases "u_length t = JNull")
  case False
  with assms show ?thesis by (auto simp: length_led_def)
next
  case True
  obtain r2 t2 w2 where g: "get_details n t w = (r2, t2, w2)"
    by (cases "get_details n t w") auto
  from assms(1) True g have "t1 = t2\<lparr>u_length := v\<rparr>"
    by (auto simp: length_led_def split: sum.splits)
  with assms(2) show ?thesis by (simp add: length_led_def)
qed

lemma movie_branch_counted:
  assumes "0 < N" and "N < 2 ^ 49" and "length movie < 2 ^ 50"
    and "args ''movie_file'' = Some (JStr p)" and "p \<noteq> []"
    and "files w p = Some movie" and "args ''movie_delay'' = Some delay"
    and "length_led n t w = (Inr (JInt N), t1, w1)"
  shows "movie_branch n args t w =
     (case mode_setter n ''movie'' t1 w1 of
        (Inl e, t3, w3) \<Rightarrow> (Inl e, t3, w3)
      | (Inr _, t3, w3) \<Rightarrow>
         (case set_movie_config n
                 (JObj [(''frame_delay'', delay), (''leds_number'', JInt N),
                        (''frames_number'', JInt (int (length movie) div (3 * N)))]) t3 w3 of
            (Inl e, t4, w4) \<Rightarrow> (Inl e, t4, w4)
          | (Inr _, t4, w4) \<Rightarrow> bound (upload_movie n movie t4 w4)))"
proof -
  have again: "length_led n t1 w1 = (Inr (JInt N), t1, w1)"
    using length_led_caches[OF assms(8)] by simp
  have fn: "frames_number (float_quot w1) (length movie) (JInt N) =
              Inr (int (length movie) div (3 * N))"
    using assms(1,2,3) by (rule frames_number_pos)
  show ?thesis
    unfolding movie_branch_def
    by (simp add: getattr_def assms(4,5,6,7,8) again fn)
qed

lemmas cli_defs = main_def parse_args_def run_main_def getattr_def dispatch_def
  mqtt_branch_def movie_branch_def bound_def twinkly_init_def TWINKLY_MODES_def
  length_led_def get_details_def mode_setter_def set_mode_def set_movie_config_def
  upload_movie_def get_mqtt_def set_mqtt_def get_network_status_def

text \<open>
  Claim C6, as amended. For an LED count \<open>N\<close> with \<open>0 < N < 2^49\<close> and a buffer of
  \<open>len < 2^50\<close> bytes, the derived \<open>frames_number\<close> is \<open>len\<close> divided by \<open>3 * N\<close>, rounded
  down; for a buffer of \<open>3 * N * F\<close> bytes it is \<open>F\<close>. Between reading the file and the
  requests there is no test of the length: once the property \<open>length\<close> has given the
  count \<open>N\<close>, cached or fetched from the device, the branch is the change of mode, the
  configuration with that \<open>frames_number\<close> and the upload of the whole buffer.
\<close>

theorem movie_upload_truncates:
  assumes "0 < N" and "N < 2 ^ 49" and "len < 2 ^ 50"
  shows "frames_number fq len (JInt N) = Inr (int len div (3 * N)) \<and>
         (3 * nat N * F < 2 ^ 50 \<longrightarrow>
            frames_number fq (3 * nat N * F) (JInt N) = Inr (int F)) \<and>
         (args ''movie_file'' = Some (JStr p) \<and> p \<noteq> [] \<and> files w p = Some movie \<and>
          length movie = len \<and> args ''movie_delay'' = Some delay \<and>
          length_led n t w = (Inr (JInt N), t1, w1) \<longrightarrow>
            movie_branch n args t w =
              (case mode_setter n ''movie'' t1 w1 of
                 (Inl e, t3, w3) \<Rightarrow> (Inl e, t3, w3)
               | (Inr _, t3, w3) \<Rightarrow>
                  (case set_movie_config n
                          (JObj [(''frame_delay'', delay), (''leds_number'', JInt N),
                                 (''frames_number'', JInt (int len div (3 * N)))])
                          t3 w3 of
                     (Inl e, t4, w4) \<Rightarrow> (Inl e, t4, w4)
                   | (Inr _, t4, w4) \<Rightarrow> bound (upload_movie n movie t4 w4))))"
proof (intro conjI impI)
  show "frames_number fq len (JInt N) = Inr (int len div (3 * N))"
    using assms by (rule frames_number_pos)
next
  assume "3 * nat N * F < 2 ^ 50"
  with assms(1,2) show "frames_number fq (3 * nat N * F) (JInt N) = Inr (int F)"
    by (rule frames_number_exact)
next
  assume a: "args ''movie_file'' = Some (JStr p) \<and> p \<noteq> [] \<and> files w p = Some movie \<and>
          length movie = len \<and> args ''movie_delay'' = Some delay \<and>
          length_led n t w = (Inr (JInt N), t1, w1)"
  then have l: "length movie < 2 ^ 50" using assms(3) by simp
  from a have len: "length movie = len" by simp
  show "movie_branch n args t w =
              (case mode_setter n ''movie'' t1 w1 of
                 (Inl e, t3, w3) \<Rightarrow> (Inl e, t3, w3)
               | (Inr _, t3, w3) \<Rightarrow>
                  (case set_movie_config n
                          (JObj [(''frame_delay'', delay), (''leds_number'', JInt N),
                                 (''frames_number'', JInt (int len div (3 * N)))])
                          t3 w3 of
                     (Inl e, t4, w4) \<Rightarrow> (Inl e, t4, w4)
                   | (Inr _, t4, w4) \<Rightarrow> bound (upload_movie n movie t4 w4)))"
    using movie_branch_counted[OF assms(1,2) l, of args p w delay n t t1 w1] a
    unfolding len by blast
qed

text \<open>
  Three LEDs and a client that has not fetched the count yet, as \<open>main\<close> creates it. The
  file of eight bytes, one short of a frame, is not refused: the count is fetched, the
  mode is set, the configuration announces no frame and all eight bytes are uploaded.
  Nine and ten bytes give one frame, thirty-six give four.
\<close>

theorem movie_upload_truncates_witness:
  "(0::int) < 3 \<and> (3::int) < 2 ^ 49 \<and> (8::nat) < 2 ^ 50 \<and>
   frames_number (float_quot (demo_world 3600 200 0 3 1000)) 8 (JInt 3) = Inr 0 \<and>
   frames_number (float_quot (demo_world 3600 200 0 3 1000)) 9 (JInt 3) = Inr 1 \<and>
   frames_number (float_quot (demo_world 3600 200 0 3 1000)) 10 (JInt 3) = Inr 1 \<and>
   frames_number (float_quot (demo_world 3600 200 0 3 1000)) (3 * nat 3 * 4) (JInt 3) = Inr 4 \<and>
   u_length logged_in = JNull \<and>
   fst (movie_branch (Suc 0)
       (map_of [(''command'', JStr ''movie''), (''movie_delay'', JInt 100),
                (''movie_file'', JStr ''m8.bin'')])
       logged_in (demo_world 3600 200 0 3 1000)) =
     Inr (Some (JObj [(''number_of_led'', JInt 3)])) \<and>
   map url (http_log (snd (snd (movie_branch (Suc 0)
       (map_of [(''command'', JStr ''movie''), (''movie_delay'', JInt 100),
                (''movie_file'', JStr ''m8.bin'')])
       logged_in (demo_world 3600 200 0 3 1000))))) =
     [''http://h/xled/v1/gestalt'', ''http://h/xled/v1/led/mode'',
      ''http://h/xled/v1/led/movie/config'', ''http://h/xled/v1/led/movie/full''] \<and>
   map payload (http_log (snd (snd (movie_branch (Suc 0)
       (map_of [(''command'', JStr ''movie''), (''movie_delay'', JInt 100),
                (''movie_file'', JStr ''m8.bin'')])
       logged_in (demo_world 3600 200 0 3 1000))))) =
     [NoBody, JsonBody (JObj [(''mode'', JStr ''movie'')]),
      JsonBody (JObj [(''frame_delay'', JInt 100), (''leds_number'', JInt 3),
                      (''frames_number'', JInt 0)]),
      RawBody (replicate 8 0)]"
proof -
  let ?args = "map_of [(''command'', JStr ''movie''), (''movie_delay'', JInt 100),
                (''movie_file'', JStr ''m8.bin'')]"
  let ?w = "demo_world 3600 200 0 3 1000"
  let ?fq = "float_quot ?w"
  let ?g = "\<lparr>verb_of = GET, url = ''http://h/xled/v1/gestalt'', auth = Some (JStr ''QUJD''),
             payload = NoBody, via_helper = True, sent_at = 1000, expires_then = Some 4600\<rparr>"
  let ?t1 = "logged_in\<lparr>u_length := JInt 3\<rparr>"
  let ?w1 = "?w\<lparr>http_log := [?g]\<rparr>"
  have h: "(0::int) < 3" "(3::int) < 2 ^ 49" "(8::nat) < 2 ^ 50" "(9::nat) < 2 ^ 50"
    "(10::nat) < 2 ^ 50"
    by simp_all
  have fetch: "length_led (Suc 0) logged_in ?w = (Inr (JInt 3), ?t1, ?w1)"
    by (simp add: demo_defs client_defs length_led_def get_details_def)
  have pre: "?args ''movie_file'' = Some (JStr ''m8.bin'') \<and> ''m8.bin'' \<noteq> [] \<and>
             files ?w ''m8.bin'' = Some (replicate 8 0) \<and> length (replicate 8 (0::byte)) = 8 \<and>
             ?args ''movie_delay'' = Some (JInt 100) \<and>
             length_led (Suc 0) logged_in ?w = (Inr (JInt 3), ?t1, ?w1)"
    using fetch by (simp add: demo_defs)
  have big: "3 * nat 3 * 4 < (2::nat) ^ 50" by simp
  have run: "movie_branch (Suc 0) ?args logged_in ?w =
      (case mode_setter (Suc 0) ''movie'' ?t1 ?w1 of
         (Inl e, t3, w3) \<Rightarrow> (Inl e, t3, w3)
       | (Inr _, t3, w3) \<Rightarrow>
          (case set_movie_config (Suc 0)
                  (JObj [(''frame_delay'', JInt 100), (''leds_number'', JInt 3),
                         (''frames_number'', JInt (int 8 div (3 * 3)))])
                  t3 w3 of
             (Inl e, t4, w4) \<Rightarrow> (Inl e, t4, w4)
           | (Inr _, t4, w4) \<Rightarrow> bound (upload_movie (Suc 0) (replicate 8 0) t4 w4)))"
    using movie_upload_truncates[OF h(1,2,3), of ?fq 4 ?args "''m8.bin''" ?w "replicate 8 0"
            "JInt 100" "Suc 0" logged_in ?t1 ?w1] pre
    by blast
  have f8: "frames_number ?fq 8 (JInt 3) = Inr 0"
    using movie_upload_truncates[OF h(1,2,3), of ?fq 4 ?args "''m8.bin''" ?w "replicate 8 0"
            "JInt 100" "Suc 0" logged_in ?t1 ?w1]
    by simp
  have f36: "frames_number ?fq (3 * nat 3 * 4) (JInt 3) = Inr 4"
    using movie_upload_truncates[OF h(1,2,3), of ?fq 4 ?args "''m8.bin''" ?w "replicate 8 0"
            "JInt 100" "Suc 0" logged_in ?t1 ?w1] big
    by simp
  have f9: "frames_number ?fq 9 (JInt 3) = Inr 1"
    using movie_upload_truncates[OF h(1,2,4), of ?fq 4 ?args "''m8.bin''" ?w "replicate 8 0"
            "JInt 100" "Suc 0" logged_in ?t1 ?w1]
    by simp
  have f10: "frames_number ?fq 10 (JInt 3) = Inr 1"
    using movie_upload_truncates[OF h(1,2,5), of ?fq 4 ?args "''m8.bin''" ?w "replicate 8 0"
            "JInt 100" "Suc 0" logged_in ?t1 ?w1]
    by simp
  have u: "u_length logged_in = JNull" by (simp add: demo_defs)
  have out: "fst (movie_branch (Suc 0) ?args logged_in ?w) =
               Inr (Some (JObj [(''number_of_led'', JInt 3)]))"
    "map url (http_log (snd (snd (movie_branch (Suc 0) ?args logged_in ?w)))) =
     [''http://h/xled/v1/gestalt'', ''http://h/xled/v1/led/mode'',
      ''http://h/xled/v1/led/movie/config'', ''http://h/xled/v1/led/movie/full'']"
    "map payload (http_log (snd (snd (movie_branch (Suc 0) ?args logged_in ?w)))) =
     [NoBody, JsonBody (JObj [(''mode'', JStr ''movie'')]),
      JsonBody (JObj [(''frame_delay'', JInt 100), (''leds_number'', JInt 3),
                      (''frames_number'', JInt 0)]),
      RawBody (replicate 8 0)]"
    unfolding run
    by (simp_all add: demo_defs client_defs mode_setter_def set_mode_def set_movie_config_def
                  upload_movie_def bound_def)
  show ?thesis
    using h(1,2,3) f8 f9 f10 f36 u out by blast
qed

text \<open>
  Claim C6 as stated fails: the source has no check of the movie size. With three LEDs
  and a file of ten bytes, \<open>main\<close> sets the mode, posts a movie configuration with
  \<open>frames_number\<close> 1 and uploads all ten bytes; the command ends without an error.
\<close>

theorem movie_not_checked_counterexample:
  "fst (main True demo_loads (Suc (Suc 0))
         \<lparr>arg_host = ''h'', arg_debug = False, arg_json = False,
          arg_sub = Some (Movie None (Some ''m10.bin''))\<rparr>
         (demo_world 3600 200 0 3 1000)) = Inr () \<and>
   map url (http_log (snd (main True demo_loads (Suc (Suc 0))
         \<lparr>arg_host = ''h'', arg_debug = False, arg_json = False,
          arg_sub = Some (Movie None (Some ''m10.bin''))\<rparr>
         (demo_world 3600 200 0 3 1000)))) =
     [''http://h/xled/v1/login'', ''http://h/xled/v1/verify'', ''http://h/xled/v1/gestalt'',
      ''http://h/xled/v1/led/mode'', ''http://h/xled/v1/led/movie/config'',
      ''http://h/xled/v1/led/movie/full''] \<and>
   map payload (drop 4 (http_log (snd (main True demo_loads (Suc (Suc 0))
         \<lparr>arg_host = ''h'', arg_debug = False, arg_json = False,
          arg_sub = Some (Movie None (Some ''m10.bin''))\<rparr>
         (demo_world 3600 200 0 3 1000))))) =
     [JsonBody (JObj [(''frame_delay'', JInt 100), (''leds_number'', JInt 3),
                      (''frames_number'', JInt 1)]),
      RawBody (replicate 10 0)]"
  by (simp add: demo_defs client_defs cli_defs frames_number_pos)

text \<open>
  Claim C9 on the code. The subcommand \<open>token\<close> is declared to the parser and has no
  branch in the dispatch: it ends in the exception for an unknown command. The
  subcommand \<open>mqtt\<close> with \<open>--json\<close> reads \<open>args.mode\<close>, which the parser of \<open>mqtt\<close> does
  not define: it ends in an \<open>AttributeError\<close>. In both cases the only requests are
  those of the login and nothing is printed. For comparison, \<open>mqtt\<close> without \<open>--json\<close>
  prints the configuration.
\<close>

theorem cli_dispatch_gaps:
  "main True demo_loads (Suc (Suc 0))
      \<lparr>arg_host = ''h'', arg_debug = False, arg_json = False, arg_sub = Some Token\<rparr>
      (demo_world 3600 200 0 3 1000) =
     (Inl UnknownCommand,
      snd (snd (ensure_token (Suc (Suc 0)) (new_twinkly ''h'') (demo_world 3600 200 0 3 1000)))) \<and>
   main False demo_loads (Suc (Suc 0))
      \<lparr>arg_host = ''h'', arg_debug = False, arg_json = False, arg_sub = Some Token\<rparr>
      (demo_world 3600 200 0 3 1000) =
     (Inl UnknownCommand,
      snd (snd (ensure_token (Suc (Suc 0)) (new_twinkly ''h'') (demo_world 3600 200 0 3 1000)))) \<and>
   main True demo_loads (Suc (Suc 0))
      \<lparr>arg_host = ''h'', arg_debug = False, arg_json = False, arg_sub = Some (Mqtt (Some ''{}''))\<rparr>
      (demo_world 3600 200 0 3 1000) =
     (Inl AttributeError,
      snd (snd (ensure_token (Suc (Suc 0)) (new_twinkly ''h'') (demo_world 3600 200 0 3 1000)))) \<and>
   main False demo_loads (Suc (Suc 0))
      \<lparr>arg_host = ''h'', arg_debug = False, arg_json = False, arg_sub = Some (Mqtt (Some ''{}''))\<rparr>
      (demo_world 3600 200 0 3 1000) =
     (Inl AttributeError,
      snd (snd (ensure_token (Suc (Suc 0)) (new_twinkly ''h'') (demo_world 3600 200 0 3 1000)))) \<and>
   map url (http_log (snd (snd (ensure_token (Suc (Suc 0)) (new_twinkly ''h'')
      (demo_world 3600 200 0 3 1000))))) =
     [''http://h/xled/v1/login'', ''http://h/xled/v1/verify''] \<and>
   stdout (snd (snd (ensure_token (Suc (Suc 0)) (new_twinkly ''h'')
      (demo_world 3600 200 0 3 1000)))) = [] \<and>
   fst (main True demo_loads (Suc (Suc 0))
      \<lparr>arg_host = ''h'', arg_debug = False, arg_json = False, arg_sub = Some (Mqtt None)\<rparr>
      (demo_world 3600 200 0 3 1000)) = Inr () \<and>
   stdout (snd (main True demo_loads (Suc (Suc 0))
      \<lparr>arg_host = ''h'', arg_debug = False, arg_json = False, arg_sub = Some (Mqtt None)\<rparr>
      (demo_world 3600 200 0 3 1000))) = [Pretty (JObj [(''number_of_led'', JInt 3)])]"
  by (simp add: demo_defs client_defs cli_defs)

text \<open>The branches of the dispatch that call one operation and bind its result.\<close>

lemma dispatch_simple:
  "args ''command'' = Some (JStr ''network'') \<Longrightarrow>
     dispatch loads n args t w = bound (get_network_status n t w)"
  "args ''command'' = Some (JStr ''firmware'') \<Longrightarrow>
     dispatch loads n args t w = bound (get_firmware_version n t w)"
  "args ''command'' = Some (JStr ''details'') \<Longrightarrow>
     dispatch loads n args t w = bound (get_details n t w)"
  "args ''command'' = Some (JStr ''token'') \<Longrightarrow>
     dispatch loads n args t w = (Inl UnknownCommand, t, w)"
  by (simp_all add: dispatch_def getattr_def)

end
